theory Spec2Isabelle
  imports Main "HOL-Library.Word"
begin

section \<open>The text-to-speech upload script \<open>synthesize.py\<close>\<close>

text \<open>
  The script is one function, \<open>main\<close>: it reads five settings from the process
  environment, reads and strips a text file, sends the text to the speech synthesis
  service, reads the audio and writes it to object storage, then prints where it went.

  The process environment, the file system and the two services are outside the script.
  They are the fields of a record \<open>world\<close>: what each of their operations answers when
  the script calls it. A run of \<open>main\<close> in a world is the list of the operations the
  script performed, in order, and how the run ended.
\<close>

subsection \<open>Strings and bytes\<close>

text \<open>
  A Python \<open>str\<close> is a sequence of Unicode code points, a \<open>bytes\<close> a sequence of
  octets. \<open>str\<close> turns an ASCII literal of the source into its code points.
\<close>

type_synonym pystr = "nat list"

type_synonym bytes = "8 word list"

definition str :: "string \<Rightarrow> pystr" where
  "str s = map of_char s"

text \<open>
  \<open>str.isspace\<close> for one code point: the characters Python counts as whitespace, which
  \<open>str.strip()\<close> without an argument removes from both ends.
\<close>

definition isspace :: "nat \<Rightarrow> bool" where
  "isspace c \<longleftrightarrow>
     (9 \<le> c \<and> c \<le> 13) \<or> (28 \<le> c \<and> c \<le> 32) \<or> c = 133 \<or> c = 160 \<or> c = 5760 \<or>
     (8192 \<le> c \<and> c \<le> 8202) \<or> c = 8232 \<or> c = 8233 \<or> c = 8239 \<or> c = 8287 \<or>
     c = 12288"

definition strip :: "pystr \<Rightarrow> pystr" where
  "strip s = rev (dropWhile isspace (rev (dropWhile isspace s)))"

subsection \<open>Exceptions and the end of a run\<close>

text \<open>
  \<open>KeyError k\<close> is what \<open>os.environ[k]\<close> raises for a missing variable. \<open>Foreign m\<close> is
  any exception raised by the file system or by the boto3 library, told apart by its
  message \<open>m\<close>; the script never looks inside one.
\<close>

datatype exn = KeyError pystr | Foreign pystr

text \<open>
  \<open>main\<close> returns normally, or \<open>sys.exit(n)\<close> ends the run, or an exception leaves
  \<open>main\<close> uncaught. The interpreter turns these into the exit status of the process:
  0, \<open>n\<close>, and 1 after printing the traceback.
\<close>

datatype outcome = Returned | Exited int | Raised exn

fun exit_status :: "outcome \<Rightarrow> int" where
  "exit_status Returned = 0"
| "exit_status (Exited n) = n"
| "exit_status (Raised e) = 1"

subsection \<open>The world and the operations performed on it\<close>

text \<open>A boto3 client: the service it talks to and the region it was created for.\<close>

record client =
  service :: pystr
  region_name :: pystr

text \<open>
  \<^item> \<open>environ\<close>: \<open>os.environ\<close>, a dictionary from names to values.
  \<^item> \<open>fs_open p\<close>: \<open>open(p, "r", encoding="utf-8")\<close> raises (\<open>Inl\<close>), or gives a file
    whose \<open>read()\<close> raises (\<open>Inr (Inl e)\<close>, for example on bytes that are not UTF-8) or
    returns the text (\<open>Inr (Inr s)\<close>).
  \<^item> \<open>boto3_client s r\<close>: \<open>boto3.client(s, region_name=r)\<close> raises \<open>Some e\<close> (for
    example on a malformed region name) or returns the client.
  \<^item> \<open>synthesize_speech c t f v\<close>: the call raises, or returns a response whose
    \<open>["AudioStream"].read()\<close> raises or returns the audio bytes.
  \<^item> \<open>put_object c b k body ct\<close>: the call raises \<open>Some e\<close> or returns.
\<close>

record world =
  environ :: "pystr \<rightharpoonup> pystr"
  fs_open :: "pystr \<Rightarrow> exn + (exn + pystr)"
  boto3_client :: "pystr \<Rightarrow> pystr \<Rightarrow> exn option"
  synthesize_speech :: "client \<Rightarrow> pystr \<Rightarrow> pystr \<Rightarrow> pystr \<Rightarrow> exn + (exn + bytes)"
  put_object :: "client \<Rightarrow> pystr \<Rightarrow> pystr \<Rightarrow> bytes \<Rightarrow> pystr \<Rightarrow> exn option"

text \<open>
  What the script does to the world, one event for each attempt, whether or not the
  attempt succeeds. The two service calls carry the client they are made on and their
  keyword arguments in the order of the source: \<open>Text\<close>, \<open>OutputFormat\<close>, \<open>VoiceId\<close>
  and \<open>Bucket\<close>, \<open>Key\<close>, \<open>Body\<close>, \<open>ContentType\<close>.
\<close>

datatype event =
    Open pystr
  | Close
  | Print pystr
  | Boto3Client pystr pystr
  | SynthesizeSpeech client pystr pystr pystr
  | StreamRead
  | PutObject client pystr pystr bytes pystr

type_synonym run = "event list \<times> outcome"

text \<open>\<open>emit ev r\<close>: the event \<open>ev\<close> happens, then the rest of the run \<open>r\<close>.\<close>

fun emit :: "event \<Rightarrow> run \<Rightarrow> run" where
  "emit ev (tr, out) = (ev # tr, out)"

text \<open>\<open>os.environ.get(k, d)\<close> and \<open>os.environ[k]\<close>.\<close>

definition environ_get :: "(pystr \<rightharpoonup> pystr) \<Rightarrow> pystr \<Rightarrow> pystr \<Rightarrow> pystr" where
  "environ_get env k d = (case env k of None \<Rightarrow> d | Some v \<Rightarrow> v)"

definition environ_index :: "(pystr \<rightharpoonup> pystr) \<Rightarrow> pystr \<Rightarrow> exn + pystr" where
  "environ_index env k = (case env k of None \<Rightarrow> Inl (KeyError k) | Some v \<Rightarrow> Inr v)"

subsection \<open>\<open>main\<close>\<close>

text \<open>
  The body of \<open>main\<close>, statement by statement. The \<open>with\<close> block closes the file when
  control leaves it: after the \<open>SystemExit\<close> of \<open>sys.exit(1)\<close>, after an exception of
  \<open>read()\<close>, and at its end.
\<close>

definition main :: "world \<Rightarrow> run" where
  "main w =
    (let text_file = environ_get (environ w) (str ''TEXT_FILE'') (str ''speech.txt'') in
     case environ_index (environ w) (str ''S3_BUCKET'') of
       Inl e \<Rightarrow> ([], Raised e)
     | Inr s3_bucket \<Rightarrow>
     (case environ_index (environ w) (str ''S3_KEY'') of
       Inl e \<Rightarrow> ([], Raised e)
     | Inr s3_key \<Rightarrow>
     (let voice_id = environ_get (environ w) (str ''VOICE_ID'') (str ''Joanna'');
          region = environ_get (environ w) (str ''AWS_REGION'') (str ''us-east-1'')
      in
      emit (Open text_file)
      (case fs_open w text_file of
         Inl e \<Rightarrow> ([], Raised e)
       | Inr f \<Rightarrow>
       (case f of
         Inl e \<Rightarrow> emit Close ([], Raised e)
       | Inr content \<Rightarrow>
       (let text = strip content in
        if text = [] then
          emit (Print (str ''Text file is empty.'')) (emit Close ([], Exited 1))
        else
          emit Close
          (emit (Boto3Client (str ''polly'') region)
          (case boto3_client w (str ''polly'') region of
             Some e \<Rightarrow> ([], Raised e)
           | None \<Rightarrow>
           (let polly = \<lparr>service = str ''polly'', region_name = region\<rparr> in
            emit (SynthesizeSpeech polly text (str ''mp3'') voice_id)
            (case synthesize_speech w polly text (str ''mp3'') voice_id of
               Inl e \<Rightarrow> ([], Raised e)
             | Inr resp \<Rightarrow>
             emit StreamRead
             (case resp of
                Inl e \<Rightarrow> ([], Raised e)
              | Inr audio \<Rightarrow>
              emit (Boto3Client (str ''s3'') region)
              (case boto3_client w (str ''s3'') region of
                 Some e \<Rightarrow> ([], Raised e)
               | None \<Rightarrow>
               (let s3 = \<lparr>service = str ''s3'', region_name = region\<rparr> in
                emit (PutObject s3 s3_bucket s3_key audio (str ''audio/mpeg''))
                (case put_object w s3 s3_bucket s3_key audio (str ''audio/mpeg'') of
                   Some e \<Rightarrow> ([], Raised e)
                 | None \<Rightarrow>
                 emit (Print (str ''Uploaded s3://'' @ s3_bucket @ str ''/'' @ s3_key))
                   ([], Returned)))))))))))))))"

subsection \<open>Reading a run\<close>

text \<open>
  The values \<open>main\<close> binds to its locals \<open>text_file\<close>, \<open>voice_id\<close>, \<open>region\<close>,
  \<open>polly\<close> and \<open>s3\<close> in a run in the world \<open>w\<close>: the configured input path, voice and
  region, and the two clients made for that region.
\<close>

definition text_file_of :: "world \<Rightarrow> pystr" where
  "text_file_of w = environ_get (environ w) (str ''TEXT_FILE'') (str ''speech.txt'')"

definition voice_id_of :: "world \<Rightarrow> pystr" where
  "voice_id_of w = environ_get (environ w) (str ''VOICE_ID'') (str ''Joanna'')"

definition region_of :: "world \<Rightarrow> pystr" where
  "region_of w = environ_get (environ w) (str ''AWS_REGION'') (str ''us-east-1'')"

definition polly_of :: "world \<Rightarrow> client" where
  "polly_of w = \<lparr>service = str ''polly'', region_name = region_of w\<rparr>"

definition s3_of :: "world \<Rightarrow> client" where
  "s3_of w = \<lparr>service = str ''s3'', region_name = region_of w\<rparr>"

text \<open>Kinds of events, and what a list of events says about files, voices and clients.\<close>

fun is_synthesis :: "event \<Rightarrow> bool" where
  "is_synthesis (SynthesizeSpeech c t f v) = True"
| "is_synthesis ev = False"

fun is_storage :: "event \<Rightarrow> bool" where
  "is_storage (PutObject c b k body ct) = True"
| "is_storage ev = False"



fun files_opened :: "event list \<Rightarrow> pystr list" where
  "files_opened [] = []"
| "files_opened (Open p # tr) = p # files_opened tr"
| "files_opened (ev # tr) = files_opened tr"

fun voices_used :: "event list \<Rightarrow> pystr list" where
  "voices_used [] = []"
| "voices_used (SynthesizeSpeech c t f v # tr) = v # voices_used tr"
| "voices_used (ev # tr) = voices_used tr"

fun clients_created :: "event list \<Rightarrow> client list" where
  "clients_created [] = []"
| "clients_created (Boto3Client s r # tr) =
     \<lparr>service = s, region_name = r\<rparr> # clients_created tr"
| "clients_created (ev # tr) = clients_created tr"

fun clients_called :: "event list \<Rightarrow> client list" where
  "clients_called [] = []"
| "clients_called (SynthesizeSpeech c t f v # tr) = c # clients_called tr"
| "clients_called (PutObject c b k body ct # tr) = c # clients_called tr"
| "clients_called (ev # tr) = clients_called tr"

subsection \<open>Worlds to run the script in\<close>

text \<open>
  The scenario of the specification: only the two mandatory settings are set, the file
  \<open>speech.txt\<close> holds \<open>Hello world\<close> between a space, a tab and a newline, no other file
  exists, and both services answer; the audio is the three bytes \<open>ID3\<close>.
\<close>

definition hello_env :: "pystr \<rightharpoonup> pystr" where
  "hello_env =
     [str ''S3_BUCKET'' \<mapsto> str ''my-bucket'', str ''S3_KEY'' \<mapsto> str ''out/hello.mp3'']"

definition hello_world :: world where
  "hello_world =
     \<lparr>environ = hello_env,
      fs_open = (\<lambda>p. if p = str ''speech.txt''
                     then Inr (Inr ([32, 9] @ str ''Hello world'' @ [10]))
                     else Inl (Foreign (str ''FileNotFoundError''))),
      boto3_client = (\<lambda>s r. None),
      synthesize_speech = (\<lambda>c t f v. Inr (Inr [73, 68, 51])),
      put_object = (\<lambda>c b k body ct. None)\<rparr>"

text \<open>The same, with a file of three spaces, a newline and two spaces.\<close>

definition blank_world :: world where
  "blank_world =
     hello_world\<lparr>fs_open := (\<lambda>p. Inr (Inr [32, 32, 32, 10, 32, 32]))\<rparr>"

text \<open>The same, with one or both of the mandatory settings missing.\<close>

definition no_bucket_world :: world where
  "no_bucket_world =
     hello_world\<lparr>environ := [str ''S3_KEY'' \<mapsto> str ''out/hello.mp3'']\<rparr>"

definition no_key_world :: world where
  "no_key_world =
     hello_world\<lparr>environ := [str ''S3_BUCKET'' \<mapsto> str ''my-bucket'']\<rparr>"

definition bare_world :: world where
  "bare_world = hello_world\<lparr>environ := Map.empty\<rparr>"

text \<open>
  The same, with the three optional settings set: the voice to the empty string, the
  region and the input path to values of their own; the file at that path reads \<open>Hi\<close>.
\<close>

definition custom_world :: world where
  "custom_world =
     hello_world
      \<lparr>environ := hello_env
         (str ''VOICE_ID'' \<mapsto> [],
          str ''AWS_REGION'' \<mapsto> str ''eu-west-1'',
          str ''TEXT_FILE'' \<mapsto> str ''in.txt''),
       fs_open := (\<lambda>p. if p = str ''in.txt'' then Inr (Inr (str ''Hi''))
                       else Inl (Foreign (str ''FileNotFoundError'')))\<rparr>"

text \<open>The same as the scenario, with one operation failing.\<close>

definition missing_file_world :: world where
  "missing_file_world =
     hello_world\<lparr>fs_open := (\<lambda>p. Inl (Foreign (str ''FileNotFoundError'')))\<rparr>"

definition undecodable_world :: world where
  "undecodable_world =
     hello_world\<lparr>fs_open := (\<lambda>p. Inr (Inl (Foreign (str ''UnicodeDecodeError''))))\<rparr>"

definition bad_region_world :: world where
  "bad_region_world =
     hello_world\<lparr>boto3_client := (\<lambda>s r. Some (Foreign (str ''InvalidRegionError'')))\<rparr>"

definition throttled_world :: world where
  "throttled_world =
     hello_world
      \<lparr>synthesize_speech := (\<lambda>c t f v. Inl (Foreign (str ''ThrottlingException'')))\<rparr>"

definition broken_stream_world :: world where
  "broken_stream_world =
     hello_world
      \<lparr>synthesize_speech := (\<lambda>c t f v. Inr (Inl (Foreign (str ''ReadTimeoutError''))))\<rparr>"

definition no_such_bucket_world :: world where
  "no_such_bucket_world =
     hello_world\<lparr>put_object := (\<lambda>c b k body ct. Some (Foreign (str ''NoSuchBucket'')))\<rparr>"

text \<open>The same as the scenario, with boto3 refusing to make the s3 client only.\<close>

definition no_s3_client_world :: world where
  "no_s3_client_world =
     hello_world
      \<lparr>boto3_client := (\<lambda>s r. if s = str ''s3''
                             then Some (Foreign (str ''EndpointConnectionError''))
                             else None)\<rparr>"

section \<open>The paths through \<open>main\<close>\<close>

text \<open>
  \<open>main\<close> has eleven ways to end. For each, the answers of the world that lead there and
  the whole run: every event, in order, and the outcome.
\<close>

lemmas locals = text_file_of_def voice_id_of_def region_of_def polly_of_def s3_of_def

lemmas main_unfold = main_def environ_index_def locals Let_def

lemma main_no_bucket:
  assumes "environ w (str ''S3_BUCKET'') = None"
  shows "main w = ([], Raised (KeyError (str ''S3_BUCKET'')))"
  using assms by (simp add: main_unfold)

lemma main_no_key:
  assumes "environ w (str ''S3_BUCKET'') = Some b" "environ w (str ''S3_KEY'') = None"
  shows "main w = ([], Raised (KeyError (str ''S3_KEY'')))"
  using assms by (simp add: main_unfold)

lemma main_open_fails:
  assumes "environ w (str ''S3_BUCKET'') = Some b" "environ w (str ''S3_KEY'') = Some k"
    and "fs_open w (text_file_of w) = Inl e"
  shows "main w = ([Open (text_file_of w)], Raised e)"
  using assms by (simp add: main_unfold)

lemma main_read_fails:
  assumes "environ w (str ''S3_BUCKET'') = Some b" "environ w (str ''S3_KEY'') = Some k"
    and "fs_open w (text_file_of w) = Inr (Inl e)"
  shows "main w = ([Open (text_file_of w), Close], Raised e)"
  using assms by (simp add: main_unfold)

lemma main_empty_text:
  assumes "environ w (str ''S3_BUCKET'') = Some b" "environ w (str ''S3_KEY'') = Some k"
    and "fs_open w (text_file_of w) = Inr (Inr content)" "strip content = []"
  shows "main w =
    ([Open (text_file_of w), Print (str ''Text file is empty.''), Close], Exited 1)"
  using assms by (simp add: main_unfold)

lemma main_polly_client_fails:
  assumes "environ w (str ''S3_BUCKET'') = Some b" "environ w (str ''S3_KEY'') = Some k"
    and "fs_open w (text_file_of w) = Inr (Inr content)" "strip content \<noteq> []"
    and "boto3_client w (str ''polly'') (region_of w) = Some e"
  shows "main w =
    ([Open (text_file_of w), Close, Boto3Client (str ''polly'') (region_of w)], Raised e)"
  using assms by (simp add: main_unfold)

lemma main_synthesis_fails:
  assumes "environ w (str ''S3_BUCKET'') = Some b" "environ w (str ''S3_KEY'') = Some k"
    and "fs_open w (text_file_of w) = Inr (Inr content)" "strip content \<noteq> []"
    and "boto3_client w (str ''polly'') (region_of w) = None"
    and "synthesize_speech w (polly_of w) (strip content) (str ''mp3'') (voice_id_of w) = Inl e"
  shows "main w =
    ([Open (text_file_of w), Close, Boto3Client (str ''polly'') (region_of w),
      SynthesizeSpeech (polly_of w) (strip content) (str ''mp3'') (voice_id_of w)],
     Raised e)"
  using assms by (simp add: main_unfold)

lemma main_stream_fails:
  assumes "environ w (str ''S3_BUCKET'') = Some b" "environ w (str ''S3_KEY'') = Some k"
    and "fs_open w (text_file_of w) = Inr (Inr content)" "strip content \<noteq> []"
    and "boto3_client w (str ''polly'') (region_of w) = None"
    and "synthesize_speech w (polly_of w) (strip content) (str ''mp3'') (voice_id_of w)
           = Inr (Inl e)"
  shows "main w =
    ([Open (text_file_of w), Close, Boto3Client (str ''polly'') (region_of w),
      SynthesizeSpeech (polly_of w) (strip content) (str ''mp3'') (voice_id_of w),
      StreamRead],
     Raised e)"
  using assms by (simp add: main_unfold)

lemma main_s3_client_fails:
  assumes "environ w (str ''S3_BUCKET'') = Some b" "environ w (str ''S3_KEY'') = Some k"
    and "fs_open w (text_file_of w) = Inr (Inr content)" "strip content \<noteq> []"
    and "boto3_client w (str ''polly'') (region_of w) = None"
    and "synthesize_speech w (polly_of w) (strip content) (str ''mp3'') (voice_id_of w)
           = Inr (Inr audio)"
    and "boto3_client w (str ''s3'') (region_of w) = Some e"
  shows "main w =
    ([Open (text_file_of w), Close, Boto3Client (str ''polly'') (region_of w),
      SynthesizeSpeech (polly_of w) (strip content) (str ''mp3'') (voice_id_of w),
      StreamRead, Boto3Client (str ''s3'') (region_of w)],
     Raised e)"
  using assms by (simp add: main_unfold)

lemma main_upload_fails:
  assumes "environ w (str ''S3_BUCKET'') = Some b" "environ w (str ''S3_KEY'') = Some k"
    and "fs_open w (text_file_of w) = Inr (Inr content)" "strip content \<noteq> []"
    and "boto3_client w (str ''polly'') (region_of w) = None"
    and "synthesize_speech w (polly_of w) (strip content) (str ''mp3'') (voice_id_of w)
           = Inr (Inr audio)"
    and "boto3_client w (str ''s3'') (region_of w) = None"
    and "put_object w (s3_of w) b k audio (str ''audio/mpeg'') = Some e"
  shows "main w =
    ([Open (text_file_of w), Close, Boto3Client (str ''polly'') (region_of w),
      SynthesizeSpeech (polly_of w) (strip content) (str ''mp3'') (voice_id_of w),
      StreamRead, Boto3Client (str ''s3'') (region_of w),
      PutObject (s3_of w) b k audio (str ''audio/mpeg'')],
     Raised e)"
  using assms by (simp add: main_unfold)

lemma main_uploaded:
  assumes "environ w (str ''S3_BUCKET'') = Some b" "environ w (str ''S3_KEY'') = Some k"
    and "fs_open w (text_file_of w) = Inr (Inr content)" "strip content \<noteq> []"
    and "boto3_client w (str ''polly'') (region_of w) = None"
    and "synthesize_speech w (polly_of w) (strip content) (str ''mp3'') (voice_id_of w)
           = Inr (Inr audio)"
    and "boto3_client w (str ''s3'') (region_of w) = None"
    and "put_object w (s3_of w) b k audio (str ''audio/mpeg'') = None"
  shows "main w =
    ([Open (text_file_of w), Close, Boto3Client (str ''polly'') (region_of w),
      SynthesizeSpeech (polly_of w) (strip content) (str ''mp3'') (voice_id_of w),
      StreamRead, Boto3Client (str ''s3'') (region_of w),
      PutObject (s3_of w) b k audio (str ''audio/mpeg''),
      Print (str ''Uploaded s3://'' @ b @ str ''/'' @ k)],
     Returned)"
  using assms by (simp add: main_unfold)

text \<open>Every run takes one of these paths.\<close>

lemma main_cases [case_names no_bucket no_key open_fails read_fails empty_text
    polly_client_fails synthesis_fails stream_fails s3_client_fails upload_fails uploaded]:
  obtains
    "environ w (str ''S3_BUCKET'') = None"
    "main w = ([], Raised (KeyError (str ''S3_BUCKET'')))"
  | b where "environ w (str ''S3_BUCKET'') = Some b" "environ w (str ''S3_KEY'') = None"
    "main w = ([], Raised (KeyError (str ''S3_KEY'')))"
  | b k e where "environ w (str ''S3_BUCKET'') = Some b" "environ w (str ''S3_KEY'') = Some k"
    "fs_open w (text_file_of w) = Inl e"
    "main w = ([Open (text_file_of w)], Raised e)"
  | b k e where "environ w (str ''S3_BUCKET'') = Some b" "environ w (str ''S3_KEY'') = Some k"
    "fs_open w (text_file_of w) = Inr (Inl e)"
    "main w = ([Open (text_file_of w), Close], Raised e)"
  | b k content where
    "environ w (str ''S3_BUCKET'') = Some b" "environ w (str ''S3_KEY'') = Some k"
    "fs_open w (text_file_of w) = Inr (Inr content)" "strip content = []"
    "main w =
      ([Open (text_file_of w), Print (str ''Text file is empty.''), Close], Exited 1)"
  | b k content e where
    "environ w (str ''S3_BUCKET'') = Some b" "environ w (str ''S3_KEY'') = Some k"
    "fs_open w (text_file_of w) = Inr (Inr content)" "strip content \<noteq> []"
    "boto3_client w (str ''polly'') (region_of w) = Some e"
    "main w =
      ([Open (text_file_of w), Close, Boto3Client (str ''polly'') (region_of w)], Raised e)"
  | b k content e where
    "environ w (str ''S3_BUCKET'') = Some b" "environ w (str ''S3_KEY'') = Some k"
    "fs_open w (text_file_of w) = Inr (Inr content)" "strip content \<noteq> []"
    "boto3_client w (str ''polly'') (region_of w) = None"
    "synthesize_speech w (polly_of w) (strip content) (str ''mp3'') (voice_id_of w) = Inl e"
    "main w =
      ([Open (text_file_of w), Close, Boto3Client (str ''polly'') (region_of w),
        SynthesizeSpeech (polly_of w) (strip content) (str ''mp3'') (voice_id_of w)],
       Raised e)"
  | b k content e where
    "environ w (str ''S3_BUCKET'') = Some b" "environ w (str ''S3_KEY'') = Some k"
    "fs_open w (text_file_of w) = Inr (Inr content)" "strip content \<noteq> []"
    "boto3_client w (str ''polly'') (region_of w) = None"
    "synthesize_speech w (polly_of w) (strip content) (str ''mp3'') (voice_id_of w)
       = Inr (Inl e)"
    "main w =
      ([Open (text_file_of w), Close, Boto3Client (str ''polly'') (region_of w),
        SynthesizeSpeech (polly_of w) (strip content) (str ''mp3'') (voice_id_of w),
        StreamRead],
       Raised e)"
  | b k content audio e where
    "environ w (str ''S3_BUCKET'') = Some b" "environ w (str ''S3_KEY'') = Some k"
    "fs_open w (text_file_of w) = Inr (Inr content)" "strip content \<noteq> []"
    "boto3_client w (str ''polly'') (region_of w) = None"
    "synthesize_speech w (polly_of w) (strip content) (str ''mp3'') (voice_id_of w)
       = Inr (Inr audio)"
    "boto3_client w (str ''s3'') (region_of w) = Some e"
    "main w =
      ([Open (text_file_of w), Close, Boto3Client (str ''polly'') (region_of w),
        SynthesizeSpeech (polly_of w) (strip content) (str ''mp3'') (voice_id_of w),
        StreamRead, Boto3Client (str ''s3'') (region_of w)],
       Raised e)"
  | b k content audio e where
    "environ w (str ''S3_BUCKET'') = Some b" "environ w (str ''S3_KEY'') = Some k"
    "fs_open w (text_file_of w) = Inr (Inr content)" "strip content \<noteq> []"
    "boto3_client w (str ''polly'') (region_of w) = None"
    "synthesize_speech w (polly_of w) (strip content) (str ''mp3'') (voice_id_of w)
       = Inr (Inr audio)"
    "boto3_client w (str ''s3'') (region_of w) = None"
    "put_object w (s3_of w) b k audio (str ''audio/mpeg'') = Some e"
    "main w =
      ([Open (text_file_of w), Close, Boto3Client (str ''polly'') (region_of w),
        SynthesizeSpeech (polly_of w) (strip content) (str ''mp3'') (voice_id_of w),
        StreamRead, Boto3Client (str ''s3'') (region_of w),
        PutObject (s3_of w) b k audio (str ''audio/mpeg'')],
       Raised e)"
  | b k content audio where
    "environ w (str ''S3_BUCKET'') = Some b" "environ w (str ''S3_KEY'') = Some k"
    "fs_open w (text_file_of w) = Inr (Inr content)" "strip content \<noteq> []"
    "boto3_client w (str ''polly'') (region_of w) = None"
    "synthesize_speech w (polly_of w) (strip content) (str ''mp3'') (voice_id_of w)
       = Inr (Inr audio)"
    "boto3_client w (str ''s3'') (region_of w) = None"
    "put_object w (s3_of w) b k audio (str ''audio/mpeg'') = None"
    "main w =
      ([Open (text_file_of w), Close, Boto3Client (str ''polly'') (region_of w),
        SynthesizeSpeech (polly_of w) (strip content) (str ''mp3'') (voice_id_of w),
        StreamRead, Boto3Client (str ''s3'') (region_of w),
        PutObject (s3_of w) b k audio (str ''audio/mpeg''),
        Print (str ''Uploaded s3://'' @ b @ str ''/'' @ k)],
       Returned)"
proof (cases "environ w (str ''S3_BUCKET'')")
  case None
  with that(1) main_no_bucket show ?thesis by blast
next
  case B: (Some b)
  show ?thesis
  proof (cases "environ w (str ''S3_KEY'')")
    case None
    with B that(2) main_no_key show ?thesis by blast
  next
    case K: (Some k)
    show ?thesis
    proof (cases "fs_open w (text_file_of w)")
      case (Inl e)
      with B K that(3) main_open_fails show ?thesis by blast
    next
      case (Inr f)
      show ?thesis
      proof (cases f)
        case (Inl e)
        with B K Inr that(4) main_read_fails show ?thesis by blast
      next
        case C: (Inr content)
        with Inr have F: "fs_open w (text_file_of w) = Inr (Inr content)" by simp
        show ?thesis
        proof (cases "strip content = []")
          case True
          with B K F that(5) main_empty_text show ?thesis by blast
        next
          case T: False
          show ?thesis
          proof (cases "boto3_client w (str ''polly'') (region_of w)")
            case (Some e)
            with B K F T that(6) main_polly_client_fails show ?thesis by blast
          next
            case P: None
            show ?thesis
            proof (cases "synthesize_speech w (polly_of w) (strip content) (str ''mp3'')
                (voice_id_of w)")
              case (Inl e)
              with B K F T P that(7) main_synthesis_fails show ?thesis by blast
            next
              case R: (Inr resp)
              show ?thesis
              proof (cases resp)
                case (Inl e)
                with B K F T P R that(8) main_stream_fails show ?thesis by blast
              next
                case (Inr audio)
                with R have S: "synthesize_speech w (polly_of w) (strip content) (str ''mp3'')
                  (voice_id_of w) = Inr (Inr audio)" by simp
                show ?thesis
                proof (cases "boto3_client w (str ''s3'') (region_of w)")
                  case (Some e)
                  with B K F T P S that(9) main_s3_client_fails show ?thesis by blast
                next
                  case C3: None
                  show ?thesis
                  proof (cases "put_object w (s3_of w) b k audio (str ''audio/mpeg'')")
                    case (Some e)
                    with B K F T P S C3 that(10) main_upload_fails show ?thesis by blast
                  next
                    case None
                    with B K F T P S C3 that(11) main_uploaded show ?thesis by blast
                  qed
                qed
              qed
            qed
          qed
        qed
      qed
    qed
  qed
qed

section \<open>The runs in the example worlds\<close>

lemmas world_defs = hello_world_def hello_env_def blank_world_def no_bucket_world_def
  no_key_world_def bare_world_def custom_world_def missing_file_world_def
  undecodable_world_def bad_region_world_def throttled_world_def broken_stream_world_def
  no_such_bucket_world_def no_s3_client_world_def

lemmas run_defs = main_def environ_index_def environ_get_def Let_def str_def strip_def
  isspace_def

lemma hello_content: "strip ([32, 9] @ str ''Hello world'' @ [10]) = str ''Hello world''"
  by (simp add: strip_def isspace_def str_def)

lemma hello_locals:
  "text_file_of hello_world = str ''speech.txt''"
  "voice_id_of hello_world = str ''Joanna''"
  "region_of hello_world = str ''us-east-1''"
  "polly_of hello_world = \<lparr>service = str ''polly'', region_name = str ''us-east-1''\<rparr>"
  "s3_of hello_world = \<lparr>service = str ''s3'', region_name = str ''us-east-1''\<rparr>"
  by (simp_all add: locals environ_get_def world_defs str_def)

lemma main_hello_world:
  "main hello_world =
    ([Open (str ''speech.txt''), Close, Boto3Client (str ''polly'') (str ''us-east-1''),
      SynthesizeSpeech \<lparr>service = str ''polly'', region_name = str ''us-east-1''\<rparr>
        (str ''Hello world'') (str ''mp3'') (str ''Joanna''),
      StreamRead, Boto3Client (str ''s3'') (str ''us-east-1''),
      PutObject \<lparr>service = str ''s3'', region_name = str ''us-east-1''\<rparr>
        (str ''my-bucket'') (str ''out/hello.mp3'') [73, 68, 51] (str ''audio/mpeg''),
      Print (str ''Uploaded s3://my-bucket/out/hello.mp3'')],
     Returned)"
  by (simp add: run_defs world_defs)

lemma main_blank_world:
  "main blank_world =
    ([Open (str ''speech.txt''), Print (str ''Text file is empty.''), Close], Exited 1)"
  by (simp add: run_defs world_defs)

lemma main_no_bucket_world:
  "main no_bucket_world = ([], Raised (KeyError (str ''S3_BUCKET'')))"
  by (simp add: run_defs world_defs)

lemma main_no_key_world:
  "main no_key_world = ([], Raised (KeyError (str ''S3_KEY'')))"
  by (simp add: run_defs world_defs)

lemma main_bare_world:
  "main bare_world = ([], Raised (KeyError (str ''S3_BUCKET'')))"
  by (simp add: run_defs world_defs)

lemma main_custom_world:
  "main custom_world =
    ([Open (str ''in.txt''), Close, Boto3Client (str ''polly'') (str ''eu-west-1''),
      SynthesizeSpeech \<lparr>service = str ''polly'', region_name = str ''eu-west-1''\<rparr>
        (str ''Hi'') (str ''mp3'') [],
      StreamRead, Boto3Client (str ''s3'') (str ''eu-west-1''),
      PutObject \<lparr>service = str ''s3'', region_name = str ''eu-west-1''\<rparr>
        (str ''my-bucket'') (str ''out/hello.mp3'') [73, 68, 51] (str ''audio/mpeg''),
      Print (str ''Uploaded s3://my-bucket/out/hello.mp3'')],
     Returned)"
  by (simp add: run_defs world_defs)


lemma main_undecodable_world:
  "main undecodable_world =
    ([Open (str ''speech.txt''), Close], Raised (Foreign (str ''UnicodeDecodeError'')))"
  by (simp add: run_defs world_defs)

lemma main_bad_region_world:
  "main bad_region_world =
    ([Open (str ''speech.txt''), Close, Boto3Client (str ''polly'') (str ''us-east-1'')],
     Raised (Foreign (str ''InvalidRegionError'')))"
  by (simp add: run_defs world_defs)


lemma main_broken_stream_world:
  "main broken_stream_world =
    ([Open (str ''speech.txt''), Close, Boto3Client (str ''polly'') (str ''us-east-1''),
      SynthesizeSpeech \<lparr>service = str ''polly'', region_name = str ''us-east-1''\<rparr>
        (str ''Hello world'') (str ''mp3'') (str ''Joanna''),
      StreamRead],
     Raised (Foreign (str ''ReadTimeoutError'')))"
  by (simp add: run_defs world_defs)


lemma main_no_s3_client_world:
  "main no_s3_client_world =
    ([Open (str ''speech.txt''), Close, Boto3Client (str ''polly'') (str ''us-east-1''),
      SynthesizeSpeech \<lparr>service = str ''polly'', region_name = str ''us-east-1''\<rparr>
        (str ''Hello world'') (str ''mp3'') (str ''Joanna''),
      StreamRead, Boto3Client (str ''s3'') (str ''us-east-1'')],
     Raised (Foreign (str ''EndpointConnectionError'')))"
  by (simp add: run_defs world_defs)

section \<open>The claims of the specification\<close>

text \<open>
  C1. When \<open>S3_BUCKET\<close> and \<open>S3_KEY\<close> are set, the input file reads as \<open>content\<close>,
  \<open>content\<close> is not empty after \<open>strip()\<close>, and boto3 makes the client for the synthesis
  service in the configured region, the run calls \<open>synthesize_speech\<close> exactly once: on
  that client, with the stripped content as \<open>Text\<close>, \<open>mp3\<close> as \<open>OutputFormat\<close> and the
  configured voice as \<open>VoiceId\<close>.
\<close>

theorem synthesis_invoked_once:
  assumes "environ w (str ''S3_BUCKET'') = Some b" and "environ w (str ''S3_KEY'') = Some k"
    and "fs_open w (text_file_of w) = Inr (Inr content)"
    and "strip content \<noteq> []"
    and "boto3_client w (str ''polly'') (region_of w) = None"
  shows "filter is_synthesis (fst (main w)) =
    [SynthesizeSpeech (polly_of w) (strip content) (str ''mp3'') (voice_id_of w)]"
  using assms by (cases w rule: main_cases) auto

theorem synthesis_invoked_once_witness:
  "environ hello_world (str ''S3_BUCKET'') = Some (str ''my-bucket'')
   \<and> environ hello_world (str ''S3_KEY'') = Some (str ''out/hello.mp3'')
   \<and> fs_open hello_world (text_file_of hello_world)
       = Inr (Inr ([32, 9] @ str ''Hello world'' @ [10]))
   \<and> strip ([32, 9] @ str ''Hello world'' @ [10]) \<noteq> []
   \<and> boto3_client hello_world (str ''polly'') (region_of hello_world) = None
   \<and> filter is_synthesis (fst (main hello_world)) =
       [SynthesizeSpeech \<lparr>service = str ''polly'', region_name = str ''us-east-1''\<rparr>
         (str ''Hello world'') (str ''mp3'') (str ''Joanna'')]"
proof -
  have bucket: "environ hello_world (str ''S3_BUCKET'') = Some (str ''my-bucket'')"
    and key: "environ hello_world (str ''S3_KEY'') = Some (str ''out/hello.mp3'')"
    by (simp_all add: world_defs str_def)
  have content: "fs_open hello_world (text_file_of hello_world)
      = Inr (Inr ([32, 9] @ str ''Hello world'' @ [10]))"
    by (simp add: hello_locals) (simp add: world_defs)
  have nonempty: "strip ([32, 9] @ str ''Hello world'' @ [10]) \<noteq> []"
    by (simp add: strip_def isspace_def str_def)
  have client: "boto3_client hello_world (str ''polly'') (region_of hello_world) = None"
    by (simp add: world_defs)
  from synthesis_invoked_once [OF bucket key content nonempty client]
  have "filter is_synthesis (fst (main hello_world)) =
       [SynthesizeSpeech \<lparr>service = str ''polly'', region_name = str ''us-east-1''\<rparr>
         (str ''Hello world'') (str ''mp3'') (str ''Joanna'')]"
    by (simp only: hello_content hello_locals)
  with bucket key content nonempty client show ?thesis by blast
qed

text \<open>
  C1 without the conditions on the settings and on the client fails. Where boto3 refuses
  to make the polly client (as it does for a malformed region name), both settings are
  set and the file reads \<open>Hello world\<close>, yet \<open>boto3.client\<close> raises before line 17 and
  \<open>synthesize_speech\<close> is never called. Where \<open>S3_BUCKET\<close> is not set, the same file is
  there, yet the run ends at \<open>os.environ["S3_BUCKET"]\<close> and nothing is called.
\<close>

theorem synthesis_skipped_counterexample:
  "environ bad_region_world (str ''S3_BUCKET'') = Some (str ''my-bucket'')
   \<and> environ bad_region_world (str ''S3_KEY'') = Some (str ''out/hello.mp3'')
   \<and> fs_open bad_region_world (str ''speech.txt'')
       = Inr (Inr ([32, 9] @ str ''Hello world'' @ [10]))
   \<and> strip ([32, 9] @ str ''Hello world'' @ [10]) \<noteq> []
   \<and> filter is_synthesis (fst (main bad_region_world)) = []
   \<and> snd (main bad_region_world) = Raised (Foreign (str ''InvalidRegionError''))
   \<and> fs_open no_bucket_world (str ''speech.txt'')
       = Inr (Inr ([32, 9] @ str ''Hello world'' @ [10]))
   \<and> filter is_synthesis (fst (main no_bucket_world)) = []
   \<and> snd (main no_bucket_world) = Raised (KeyError (str ''S3_BUCKET''))"
proof -
  have "environ bad_region_world (str ''S3_BUCKET'') = Some (str ''my-bucket'')"
    and "environ bad_region_world (str ''S3_KEY'') = Some (str ''out/hello.mp3'')"
    by (simp_all add: world_defs str_def)
  moreover
  have "fs_open bad_region_world (str ''speech.txt'')
       = Inr (Inr ([32, 9] @ str ''Hello world'' @ [10]))"
    and "fs_open no_bucket_world (str ''speech.txt'')
       = Inr (Inr ([32, 9] @ str ''Hello world'' @ [10]))"
    by (simp_all add: world_defs)
  moreover
  have "strip ([32, 9] @ str ''Hello world'' @ [10]) \<noteq> []"
    by (simp add: strip_def isspace_def str_def)
  moreover
  have "filter is_synthesis (fst (main bad_region_world)) = []"
    and "snd (main bad_region_world) = Raised (Foreign (str ''InvalidRegionError''))"
    by (simp_all add: main_bad_region_world)
  moreover
  have "filter is_synthesis (fst (main no_bucket_world)) = []"
    and "snd (main no_bucket_world) = Raised (KeyError (str ''S3_BUCKET''))"
    by (simp_all add: main_no_bucket_world)
  ultimately show ?thesis by blast
qed

text \<open>
  C2. When the run reaches the synthesis call (the settings are set, the input file reads
  as \<open>content\<close>, not empty after \<open>strip()\<close>, and the polly client is made), the call
  returns a response whose audio stream reads in full as the bytes \<open>audio\<close>, and boto3
  makes the client for the storage service in the configured region, then the synthesis
  call is in the run and the run calls \<open>put_object\<close> exactly once: on that client, with
  the values of \<open>S3_BUCKET\<close> and \<open>S3_KEY\<close> as \<open>Bucket\<close> and \<open>Key\<close>, with \<open>audio\<close> itself as
  \<open>Body\<close> and \<open>audio/mpeg\<close> as \<open>ContentType\<close>.
\<close>

theorem storage_invoked_once:
  assumes "environ w (str ''S3_BUCKET'') = Some b" and "environ w (str ''S3_KEY'') = Some k"
    and "fs_open w (text_file_of w) = Inr (Inr content)"
    and "strip content \<noteq> []"
    and "boto3_client w (str ''polly'') (region_of w) = None"
    and "synthesize_speech w (polly_of w) (strip content) (str ''mp3'') (voice_id_of w)
           = Inr (Inr audio)"
    and "boto3_client w (str ''s3'') (region_of w) = None"
  shows "SynthesizeSpeech (polly_of w) (strip content) (str ''mp3'') (voice_id_of w)
      \<in> set (fst (main w))
    \<and> filter is_storage (fst (main w)) =
      [PutObject (s3_of w) b k audio (str ''audio/mpeg'')]"
proof (cases "put_object w (s3_of w) b k audio (str ''audio/mpeg'')")
  case None
  from main_uploaded [OF assms None] show ?thesis by simp
next
  case (Some e)
  from main_upload_fails [OF assms Some] show ?thesis by simp
qed

theorem storage_invoked_once_witness:
  "environ hello_world (str ''S3_BUCKET'') = Some (str ''my-bucket'')
   \<and> environ hello_world (str ''S3_KEY'') = Some (str ''out/hello.mp3'')
   \<and> fs_open hello_world (text_file_of hello_world)
       = Inr (Inr ([32, 9] @ str ''Hello world'' @ [10]))
   \<and> strip ([32, 9] @ str ''Hello world'' @ [10]) \<noteq> []
   \<and> boto3_client hello_world (str ''polly'') (region_of hello_world) = None
   \<and> synthesize_speech hello_world (polly_of hello_world)
        (strip ([32, 9] @ str ''Hello world'' @ [10])) (str ''mp3'')
        (voice_id_of hello_world) = Inr (Inr [73, 68, 51])
   \<and> boto3_client hello_world (str ''s3'') (region_of hello_world) = None
   \<and> SynthesizeSpeech \<lparr>service = str ''polly'', region_name = str ''us-east-1''\<rparr>
        (str ''Hello world'') (str ''mp3'') (str ''Joanna'') \<in> set (fst (main hello_world))
   \<and> filter is_storage (fst (main hello_world)) =
       [PutObject \<lparr>service = str ''s3'', region_name = str ''us-east-1''\<rparr>
         (str ''my-bucket'') (str ''out/hello.mp3'') [73, 68, 51] (str ''audio/mpeg'')]"
proof -
  have bucket: "environ hello_world (str ''S3_BUCKET'') = Some (str ''my-bucket'')"
    and key: "environ hello_world (str ''S3_KEY'') = Some (str ''out/hello.mp3'')"
    by (simp_all add: world_defs str_def)
  have content: "fs_open hello_world (text_file_of hello_world)
      = Inr (Inr ([32, 9] @ str ''Hello world'' @ [10]))"
    by (simp add: hello_locals) (simp add: world_defs)
  have nonempty: "strip ([32, 9] @ str ''Hello world'' @ [10]) \<noteq> []"
    by (simp add: strip_def isspace_def str_def)
  have polly: "boto3_client hello_world (str ''polly'') (region_of hello_world) = None"
    by (simp add: world_defs)
  have answered: "synthesize_speech hello_world (polly_of hello_world)
        (strip ([32, 9] @ str ''Hello world'' @ [10])) (str ''mp3'')
        (voice_id_of hello_world) = Inr (Inr [73, 68, 51])"
    by (simp add: world_defs)
  have s3: "boto3_client hello_world (str ''s3'') (region_of hello_world) = None"
    by (simp add: world_defs)
  from storage_invoked_once [OF bucket key content nonempty polly answered s3]
  have "SynthesizeSpeech \<lparr>service = str ''polly'', region_name = str ''us-east-1''\<rparr>
        (str ''Hello world'') (str ''mp3'') (str ''Joanna'') \<in> set (fst (main hello_world))
   \<and> filter is_storage (fst (main hello_world)) =
       [PutObject \<lparr>service = str ''s3'', region_name = str ''us-east-1''\<rparr>
         (str ''my-bucket'') (str ''out/hello.mp3'') [73, 68, 51] (str ''audio/mpeg'')]"
    by (simp only: hello_content hello_locals)
  with bucket key content nonempty polly answered s3 show ?thesis by blast
qed

text \<open>
  C2 with nothing but a synthesis call that succeeds fails in two ways. Where the call
  returns a response but reading its audio stream raises (line 18), and where the call
  returns audio but boto3 refuses to make the s3 client (line 20), the synthesis call is
  in the run and did not raise, yet \<open>put_object\<close> is never called.
\<close>

theorem storage_skipped_counterexample:
  "SynthesizeSpeech \<lparr>service = str ''polly'', region_name = str ''us-east-1''\<rparr>
      (str ''Hello world'') (str ''mp3'') (str ''Joanna'')
      \<in> set (fst (main broken_stream_world))
   \<and> synthesize_speech broken_stream_world
        \<lparr>service = str ''polly'', region_name = str ''us-east-1''\<rparr>
        (str ''Hello world'') (str ''mp3'') (str ''Joanna'')
       = Inr (Inl (Foreign (str ''ReadTimeoutError'')))
   \<and> filter is_storage (fst (main broken_stream_world)) = []
   \<and> SynthesizeSpeech \<lparr>service = str ''polly'', region_name = str ''us-east-1''\<rparr>
      (str ''Hello world'') (str ''mp3'') (str ''Joanna'')
      \<in> set (fst (main no_s3_client_world))
   \<and> synthesize_speech no_s3_client_world
        \<lparr>service = str ''polly'', region_name = str ''us-east-1''\<rparr>
        (str ''Hello world'') (str ''mp3'') (str ''Joanna'')
       = Inr (Inr [73, 68, 51])
   \<and> filter is_storage (fst (main no_s3_client_world)) = []"
proof -
  have "SynthesizeSpeech \<lparr>service = str ''polly'', region_name = str ''us-east-1''\<rparr>
      (str ''Hello world'') (str ''mp3'') (str ''Joanna'')
      \<in> set (fst (main broken_stream_world))"
    and "filter is_storage (fst (main broken_stream_world)) = []"
    by (simp_all add: main_broken_stream_world)
  moreover
  have "SynthesizeSpeech \<lparr>service = str ''polly'', region_name = str ''us-east-1''\<rparr>
      (str ''Hello world'') (str ''mp3'') (str ''Joanna'')
      \<in> set (fst (main no_s3_client_world))"
    and "filter is_storage (fst (main no_s3_client_world)) = []"
    by (simp_all add: main_no_s3_client_world)
  moreover
  have "synthesize_speech broken_stream_world
        \<lparr>service = str ''polly'', region_name = str ''us-east-1''\<rparr>
        (str ''Hello world'') (str ''mp3'') (str ''Joanna'')
       = Inr (Inl (Foreign (str ''ReadTimeoutError'')))"
    and "synthesize_speech no_s3_client_world
        \<lparr>service = str ''polly'', region_name = str ''us-east-1''\<rparr>
        (str ''Hello world'') (str ''mp3'') (str ''Joanna'')
       = Inr (Inr [73, 68, 51])"
    by (simp_all add: world_defs)
  ultimately show ?thesis by blast
qed



text \<open>
  C4. When \<open>S3_BUCKET\<close> or \<open>S3_KEY\<close> is not set, the run ends with the \<open>KeyError\<close> of
  \<open>os.environ[...]\<close> for a setting that is missing, and with no event at all before it:
  nothing is opened, no client is made and neither service is called. The exit status
  is 1.
\<close>

theorem missing_setting_fails:
  assumes "environ w (str ''S3_BUCKET'') = None \<or> environ w (str ''S3_KEY'') = None"
  shows "(\<exists>name. (name = str ''S3_BUCKET'' \<or> name = str ''S3_KEY'') \<and> environ w name = None \<and>
      snd (main w) = Raised (KeyError name))
    \<and> fst (main w) = []
    \<and> exit_status (snd (main w)) = 1"
  using assms by (cases w rule: main_cases) auto

theorem missing_setting_fails_witness:
  "environ no_key_world (str ''S3_KEY'') = None
   \<and> snd (main no_key_world) = Raised (KeyError (str ''S3_KEY''))
   \<and> fst (main no_key_world) = []
   \<and> exit_status (snd (main no_key_world)) = 1"
proof -
  have unset: "environ no_key_world (str ''S3_KEY'') = None"
    by (simp add: world_defs str_def)
  have set: "environ no_key_world (str ''S3_BUCKET'') \<noteq> None"
    by (simp add: world_defs str_def)
  from unset
  have "environ no_key_world (str ''S3_BUCKET'') = None
      \<or> environ no_key_world (str ''S3_KEY'') = None" ..
  from missing_setting_fails [OF this] set unset
  have "snd (main no_key_world) = Raised (KeyError (str ''S3_KEY''))
   \<and> fst (main no_key_world) = []
   \<and> exit_status (snd (main no_key_world)) = 1"
    by auto
  with unset show ?thesis by blast
qed

text \<open>
  C5. When \<open>TEXT_FILE\<close> is not set, no file other than \<open>speech.txt\<close> is opened; when
  \<open>VOICE_ID\<close> is not set, no voice other than \<open>Joanna\<close> is passed to the synthesis
  service; when \<open>AWS_REGION\<close> is not set, no client is made for a region other than
  \<open>us-east-1\<close>. On a run that returns, exactly \<open>speech.txt\<close> is opened, exactly \<open>Joanna\<close>
  is passed, and the two clients are both made for \<open>us-east-1\<close>.
\<close>

theorem defaults_used:
  "(environ w (str ''TEXT_FILE'') = None \<longrightarrow>
      (\<forall>p \<in> set (files_opened (fst (main w))). p = str ''speech.txt'') \<and>
      (snd (main w) = Returned \<longrightarrow> files_opened (fst (main w)) = [str ''speech.txt'']))
   \<and> (environ w (str ''VOICE_ID'') = None \<longrightarrow>
      (\<forall>v \<in> set (voices_used (fst (main w))). v = str ''Joanna'') \<and>
      (snd (main w) = Returned \<longrightarrow> voices_used (fst (main w)) = [str ''Joanna'']))
   \<and> (environ w (str ''AWS_REGION'') = None \<longrightarrow>
      (\<forall>c \<in> set (clients_created (fst (main w))). region_name c = str ''us-east-1'') \<and>
      (snd (main w) = Returned \<longrightarrow>
         map region_name (clients_created (fst (main w)))
           = [str ''us-east-1'', str ''us-east-1'']))"
  by (cases w rule: main_cases) (simp_all add: locals environ_get_def)

theorem defaults_used_witness:
  "environ hello_world (str ''TEXT_FILE'') = None
   \<and> environ hello_world (str ''VOICE_ID'') = None
   \<and> environ hello_world (str ''AWS_REGION'') = None
   \<and> snd (main hello_world) = Returned
   \<and> files_opened (fst (main hello_world)) = [str ''speech.txt'']
   \<and> voices_used (fst (main hello_world)) = [str ''Joanna'']
   \<and> map region_name (clients_created (fst (main hello_world)))
       = [str ''us-east-1'', str ''us-east-1'']"
proof -
  have unset: "environ hello_world (str ''TEXT_FILE'') = None"
    "environ hello_world (str ''VOICE_ID'') = None"
    "environ hello_world (str ''AWS_REGION'') = None"
    by (simp_all add: world_defs str_def)
  have returned: "snd (main hello_world) = Returned"
    by (simp add: main_hello_world)
  from defaults_used [of hello_world] unset returned show ?thesis
    by blast
qed



text \<open>
  C7. Every client a run makes is made for the one configured region, the value of
  \<open>AWS_REGION\<close> or \<open>us-east-1\<close>, and every service call is made on one of these clients.
  On a run that returns, the clients made are the polly client and the s3 client of that
  region, and the two service calls are made on them, in this order.
\<close>

theorem one_region_for_both_clients:
  "(\<forall>c \<in> set (clients_created (fst (main w))). region_name c = region_of w)
   \<and> (\<forall>c \<in> set (clients_called (fst (main w))). c \<in> set (clients_created (fst (main w))))
   \<and> (snd (main w) = Returned \<longrightarrow>
        clients_created (fst (main w)) = [polly_of w, s3_of w] \<and>
        clients_called (fst (main w)) = [polly_of w, s3_of w])"
  by (cases w rule: main_cases) (simp_all add: polly_of_def s3_of_def)

theorem one_region_for_both_clients_witness:
  "snd (main custom_world) = Returned
   \<and> environ custom_world (str ''AWS_REGION'') = Some (str ''eu-west-1'')
   \<and> clients_created (fst (main custom_world)) =
       [\<lparr>service = str ''polly'', region_name = str ''eu-west-1''\<rparr>,
        \<lparr>service = str ''s3'', region_name = str ''eu-west-1''\<rparr>]
   \<and> clients_called (fst (main custom_world)) =
       [\<lparr>service = str ''polly'', region_name = str ''eu-west-1''\<rparr>,
        \<lparr>service = str ''s3'', region_name = str ''eu-west-1''\<rparr>]"
proof -
  have returned: "snd (main custom_world) = Returned"
    by (simp add: main_custom_world)
  have region: "environ custom_world (str ''AWS_REGION'') = Some (str ''eu-west-1'')"
    by (simp add: world_defs str_def)
  then have clients:
    "polly_of custom_world = \<lparr>service = str ''polly'', region_name = str ''eu-west-1''\<rparr>"
    "s3_of custom_world = \<lparr>service = str ''s3'', region_name = str ''eu-west-1''\<rparr>"
    by (simp_all add: locals environ_get_def)
  from one_region_for_both_clients [of custom_world] returned
  have "clients_created (fst (main custom_world)) = [polly_of custom_world, s3_of custom_world]
    \<and> clients_called (fst (main custom_world)) = [polly_of custom_world, s3_of custom_world]"
    by blast
  with returned region show ?thesis
    unfolding clients by blast
qed



text \<open>
  C9. When \<open>S3_BUCKET\<close> or \<open>S3_KEY\<close> is not set, the run does not depend on the file
  system: whatever opening and reading any file would answer (no such file, an
  unreadable one, one of whitespace only), the run is the same, no file is opened in
  it, and it ends with a \<open>KeyError\<close>.
\<close>

theorem configuration_precedes_file:
  assumes "environ w (str ''S3_BUCKET'') = None \<or> environ w (str ''S3_KEY'') = None"
  shows "main (w\<lparr>fs_open := files\<rparr>) = main w
    \<and> files_opened (fst (main w)) = []
    \<and> (\<exists>name. snd (main w) = Raised (KeyError name))"
proof -
  have "environ (w\<lparr>fs_open := files\<rparr>) = environ w"
    by simp
  with assms show ?thesis
    by (cases w rule: main_cases; cases "w\<lparr>fs_open := files\<rparr>" rule: main_cases) auto
qed

theorem configuration_precedes_file_witness:
  "environ bare_world (str ''S3_BUCKET'') = None
   \<and> main (bare_world\<lparr>fs_open := (\<lambda>p. Inr (Inr [32, 10]))\<rparr>) = main bare_world
   \<and> main (bare_world\<lparr>fs_open := (\<lambda>p. Inl (Foreign (str ''PermissionError'')))\<rparr>)
       = main bare_world
   \<and> files_opened (fst (main bare_world)) = []
   \<and> snd (main bare_world) = Raised (KeyError (str ''S3_BUCKET''))"
proof -
  have unset: "environ bare_world (str ''S3_BUCKET'') = None"
    by (simp add: world_defs)
  then have missing: "environ bare_world (str ''S3_BUCKET'') = None
      \<or> environ bare_world (str ''S3_KEY'') = None" ..
  from configuration_precedes_file [OF missing, of "\<lambda>p. Inr (Inr [32, 10])"]
    configuration_precedes_file [OF missing, of "\<lambda>p. Inl (Foreign (str ''PermissionError''))"]
  have "main (bare_world\<lparr>fs_open := (\<lambda>p. Inr (Inr [32, 10]))\<rparr>) = main bare_world
   \<and> main (bare_world\<lparr>fs_open := (\<lambda>p. Inl (Foreign (str ''PermissionError'')))\<rparr>)
       = main bare_world
   \<and> files_opened (fst (main bare_world)) = []"
    by blast
  moreover have "snd (main bare_world) = Raised (KeyError (str ''S3_BUCKET''))"
    by (simp add: main_bare_world)
  ultimately show ?thesis
    using unset by blast
qed

text \<open>
  C10. A variable that is set is used with the value it has, the empty string included:
  when \<open>TEXT_FILE\<close>, \<open>VOICE_ID\<close> or \<open>AWS_REGION\<close> is set to a value, no file other than that
  value is opened, no voice other than that value is passed to the synthesis service,
  no client is made for a region other than that value; on a run that returns, exactly
  that file is opened, exactly that voice is passed and both clients are made for that
  region. So a default is in use only when the variable is absent (or equal to it).
\<close>

theorem set_value_used_as_is:
  "(environ w (str ''TEXT_FILE'') = Some x \<longrightarrow>
      (\<forall>p \<in> set (files_opened (fst (main w))). p = x) \<and>
      (snd (main w) = Returned \<longrightarrow> files_opened (fst (main w)) = [x]))
   \<and> (environ w (str ''VOICE_ID'') = Some y \<longrightarrow>
      (\<forall>v \<in> set (voices_used (fst (main w))). v = y) \<and>
      (snd (main w) = Returned \<longrightarrow> voices_used (fst (main w)) = [y]))
   \<and> (environ w (str ''AWS_REGION'') = Some z \<longrightarrow>
      (\<forall>c \<in> set (clients_created (fst (main w))). region_name c = z) \<and>
      (snd (main w) = Returned \<longrightarrow>
         map region_name (clients_created (fst (main w))) = [z, z]))"
  by (cases w rule: main_cases) (simp_all add: locals environ_get_def)

theorem set_value_used_as_is_witness:
  "environ custom_world (str ''VOICE_ID'') = Some []
   \<and> environ custom_world (str ''TEXT_FILE'') = Some (str ''in.txt'')
   \<and> environ custom_world (str ''AWS_REGION'') = Some (str ''eu-west-1'')
   \<and> snd (main custom_world) = Returned
   \<and> voices_used (fst (main custom_world)) = [[]]
   \<and> [] \<noteq> str ''Joanna''
   \<and> files_opened (fst (main custom_world)) = [str ''in.txt'']
   \<and> map region_name (clients_created (fst (main custom_world)))
       = [str ''eu-west-1'', str ''eu-west-1'']"
proof -
  have given: "environ custom_world (str ''VOICE_ID'') = Some []"
    "environ custom_world (str ''TEXT_FILE'') = Some (str ''in.txt'')"
    "environ custom_world (str ''AWS_REGION'') = Some (str ''eu-west-1'')"
    by (simp_all add: world_defs str_def)
  have returned: "snd (main custom_world) = Returned"
    by (simp add: main_custom_world)
  have differs: "[] \<noteq> str ''Joanna''"
    by (simp add: str_def)
  from set_value_used_as_is [of custom_world "str ''in.txt''" "[]" "str ''eu-west-1''"]
    given returned
  have "voices_used (fst (main custom_world)) = [[]]
   \<and> files_opened (fst (main custom_world)) = [str ''in.txt'']
   \<and> map region_name (clients_created (fst (main custom_world)))
       = [str ''eu-west-1'', str ''eu-west-1'']"
    by blast
  with given returned differs show ?thesis by blast
qed

end
